theory Spec2Isabelle
  imports Main "HOL-Library.Word"
begin

section \<open>Data model of package cache\<close>

type_synonym key = string
type_synonym bytes = "8 word list"
type_synonym ref = nat
type_synonym Duration = "64 word"
type_synonym Time = int

text \<open>
  Modelled from the spec: the error values of the package are declared outside
  \<^verbatim>\<open>cache.go\<close>. \<open>ErrCacheMiss\<close> is the distinguished "not found" signal of the
  storage capability, \<open>LambdaError\<close> is the struct built by \<^verbatim>\<open>&LambdaError{Cause: err}\<close>
  (the build-specific wrapper carrying the underlying cause), and \<open>OtherError\<close> stands for
  every other non-nil Go error value, identified by its message. A Go \<^verbatim>\<open>error\<close> that may be
  \<^verbatim>\<open>nil\<close> is an \<open>error option\<close>.
\<close>

datatype error = ErrCacheMiss | is_LambdaError: LambdaError (Cause: error) | OtherError string

text \<open>
  Modelled from the spec: the metric event kinds passed to \<^verbatim>\<open>Track\<close> (hit, miss,
  get-error, build-error, unmarshal-error, set-error, marshal-error, invalidate-error),
  under the names \<^verbatim>\<open>cache.go\<close> uses for them.
\<close>

datatype Event =
    CacheHit | CacheMiss | CacheGetError | CacheSetError | CacheInvalidateError
  | CacheLambdaError | CacheUnmarshalError | CacheMarshalError

text \<open>
  Modelled from the spec: the optional logger and metrics sinks. A supplied sink is opaque
  (identified by a number); \<open>noopLogger\<close> and \<open>noopMetrics\<close> are the package's own
  no-op implementations, which \<^verbatim>\<open>getLogger\<close> and \<^verbatim>\<open>getMetrics\<close> return when the field is nil.
\<close>

datatype Logger = noopLogger | SuppliedLogger nat

datatype Metrics = noopMetrics | SuppliedMetrics nat

text \<open>
  A \<^verbatim>\<open>context.Context\<close> of the Go standard library, by what it means for a blocking call that
  receives it: the absolute time (in nanoseconds) at which it expires, if any, and the
  cancellation signals of its ancestors that end it early.
\<close>

record Context =
  deadline :: "Time option"
  cancelSignals :: "nat list"

definition Background :: Context where
  "Background = \<lparr>deadline = None, cancelSignals = []\<rparr>"

text \<open>
  \<^verbatim>\<open>context.WithDeadline(parent, d)\<close>: when the parent already expires sooner, the child is
  a plain cancellable child of the parent; otherwise it expires at \<open>d\<close>. Either way every
  cancellation of the parent propagates to the child. The child's own cancel function is
  what \<^verbatim>\<open>Set\<close> defers; it runs only when \<^verbatim>\<open>Set\<close> returns, after the storage write.
\<close>

definition WithDeadline :: "Context \<Rightarrow> Time \<Rightarrow> Context" where
  "WithDeadline parent d =
     (case deadline parent of
        Some cur \<Rightarrow> if cur < d then parent else parent\<lparr>deadline := Some d\<rparr>
      | None \<Rightarrow> parent\<lparr>deadline := Some d\<rparr>)"

text \<open>\<^verbatim>\<open>context.WithTimeout(parent, timeout)\<close> is \<^verbatim>\<open>WithDeadline(parent, time.Now().Add(timeout))\<close>.\<close>

definition WithTimeout :: "Context \<Rightarrow> Duration \<Rightarrow> Time \<Rightarrow> Context" where
  "WithTimeout parent timeout t = WithDeadline parent (t + sint timeout)"

definition Second :: Duration where
  "Second = 1000000000"

text \<open>
  Modelled from the spec: the storage capability (an interface declared outside
  \<^verbatim>\<open>cache.go\<close>). Its three operations act on the state \<open>'x\<close> of the world outside the
  client; \<^verbatim>\<open>Get\<close> returns Go's pair of bytes and error.
\<close>

record 'x Storage =
  Storage_Get :: "Context \<Rightarrow> key \<Rightarrow> 'x \<Rightarrow> (bytes \<times> error option) \<times> 'x"
  Storage_Set :: "Context \<Rightarrow> key \<Rightarrow> bytes \<Rightarrow> 'x \<Rightarrow> error option \<times> 'x"
  Storage_Invalidate :: "Context \<Rightarrow> key \<Rightarrow> 'x \<Rightarrow> error option \<times> 'x"

text \<open>
  \<^verbatim>\<open>BinaryEncoder\<close>: an interface value is a method table together with a pointer to the
  data. \<open>data\<close> is the address of the value in the heap; \<^verbatim>\<open>UnmarshalBinary\<close> overwrites the
  value in place, so it returns the new one.
\<close>

record 'v BinaryEncoder =
  MarshalBinary :: "'v \<Rightarrow> bytes \<times> error option"
  UnmarshalBinary :: "bytes \<Rightarrow> 'v \<Rightarrow> error option \<times> 'v"
  data :: ref

text \<open>
  \<^verbatim>\<open>Builder\<close> and \<^verbatim>\<open>BuilderFunc\<close>: a builder populates \<open>dest\<close> in place (it gets the value
  \<open>dest\<close> points to and returns the new one) and may use the outside world.
\<close>

type_synonym ('v, 'x) BuilderFunc =
  "Context \<Rightarrow> key \<Rightarrow> 'v \<Rightarrow> 'x \<Rightarrow> (error option \<times> 'v) \<times> 'x"

definition Build :: "('v, 'x) BuilderFunc \<Rightarrow> Context \<Rightarrow> key \<Rightarrow> 'v \<Rightarrow> 'x \<Rightarrow> (error option \<times> 'v) \<times> 'x" where
  "Build b ctx k dest = b ctx k dest"

record 'x Client =
  Storage :: "'x Storage"
  Logger :: "Logger option"
  Metrics :: "Metrics option"
  WriteTimeout :: Duration
  pendingWrites :: "64 word"

text \<open>Every call the client makes on a collaborator is appended to a trace.\<close>

datatype call =
    StorageGet Context key
  | is_StorageSet: StorageSet Context key bytes
  | is_StorageInvalidate: StorageInvalidate Context key
  | is_BuilderBuild: BuilderBuild Context key ref
  | Tracked Metrics Event
  | Logged Logger string key error

text \<open>A goroutine started by \<^verbatim>\<open>go c.Set(ctx, key, dest)\<close> and not yet run.\<close>

datatype 'v goroutine = GoSet Context key "'v BinaryEncoder"

text \<open>
  The state all methods run in: the client behind the receiver pointer \<open>c\<close>, the heap
  holding the values behind \<open>dest\<close> pointers, the outside world, the trace, the goroutines
  started and not yet run, and the clock read by \<^verbatim>\<open>time.Now()\<close>.
\<close>

record ('v, 'x) world =
  client :: "'x Client"
  heap :: "ref \<Rightarrow> 'v"
  ext :: 'x
  trace :: "call list"
  goroutines :: "'v goroutine list"
  now :: Time

section \<open>The methods of Client\<close>

definition getLogger :: "'x Client \<Rightarrow> Logger" where
  "getLogger c = (case Logger c of Some l \<Rightarrow> l | None \<Rightarrow> noopLogger)"

definition getMetrics :: "'x Client \<Rightarrow> Metrics" where
  "getMetrics c = (case Metrics c of Some m \<Rightarrow> m | None \<Rightarrow> noopMetrics)"

definition getWriteTimeout :: "'x Client \<Rightarrow> Duration" where
  "getWriteTimeout c = (if 0 < sint (WriteTimeout c) then WriteTimeout c else 3 * Second)"

definition Log :: "Logger \<Rightarrow> string \<Rightarrow> key \<Rightarrow> error \<Rightarrow> ('v, 'x) world \<Rightarrow> ('v, 'x) world" where
  "Log l format k e s = s\<lparr>trace := trace s @ [Logged l format k e]\<rparr>"

definition Track :: "Metrics \<Rightarrow> Event \<Rightarrow> ('v, 'x) world \<Rightarrow> ('v, 'x) world" where
  "Track m ev s = s\<lparr>trace := trace s @ [Tracked m ev]\<rparr>"

text \<open>\<^verbatim>\<open>atomic.AddInt64(&c.pendingWrites, delta)\<close>: 64-bit addition, wrapping.\<close>

definition AddInt64_pendingWrites :: "64 word \<Rightarrow> ('v, 'x) world \<Rightarrow> ('v, 'x) world" where
  "AddInt64_pendingWrites delta s =
     s\<lparr>client := (client s)\<lparr>pendingWrites := pendingWrites (client s) + delta\<rparr>\<rparr>"

definition Invalidate :: "Context \<Rightarrow> key \<Rightarrow> ('v, 'x) world \<Rightarrow> error option \<times> ('v, 'x) world" where
  "Invalidate ctx k s =
     (case Storage_Invalidate (Storage (client s)) ctx k (ext s) of
        (err, x') \<Rightarrow>
          (let s1 = s\<lparr>ext := x', trace := trace s @ [StorageInvalidate ctx k]\<rparr> in
           case err of
             Some e \<Rightarrow>
               (Some e,
                Track (getMetrics (client s1)) CacheInvalidateError
                  (Log (getLogger (client s1))
                     ''cache invalidate error. key: '%s' error: %s'' k e s1))
           | None \<Rightarrow> (None, s1)))"

text \<open>
  \<^verbatim>\<open>Set\<close>. The deferred decrement of \<open>pendingWrites\<close> runs on every return, so it is applied
  to the state each branch of the body ends in.
\<close>

definition Set_body :: "Context \<Rightarrow> key \<Rightarrow> 'v BinaryEncoder \<Rightarrow> ('v, 'x) world \<Rightarrow> ('v, 'x) world" where
  "Set_body ctx0 k val s =
     (let ctx = WithTimeout ctx0 (getWriteTimeout (client s)) (now s) in
      case MarshalBinary val (heap s (data val)) of
        (bs, Some e) \<Rightarrow>
          Track (getMetrics (client s)) CacheMarshalError
            (Log (getLogger (client s)) ''cache update marshal error. key: '%s' error: %s'' k e s)
      | (bs, None) \<Rightarrow>
          (case Storage_Set (Storage (client s)) ctx k bs (ext s) of
             (err, x') \<Rightarrow>
               (let s1 = s\<lparr>ext := x', trace := trace s @ [StorageSet ctx k bs]\<rparr> in
                case err of
                  Some e \<Rightarrow>
                    Track (getMetrics (client s1)) CacheSetError
                      (Log (getLogger (client s1))
                         ''cache update set error. key: '%s' error: %s'' k e s1)
                | None \<Rightarrow> s1)))"

definition Set :: "Context \<Rightarrow> key \<Rightarrow> 'v BinaryEncoder \<Rightarrow> ('v, 'x) world \<Rightarrow> ('v, 'x) world" where
  "Set ctx k val s = AddInt64_pendingWrites (- 1) (Set_body ctx k val s)"

text \<open>\<^verbatim>\<open>go c.Set(ctx, key, dest)\<close>: the call is queued, not run.\<close>

definition go_Set :: "Context \<Rightarrow> key \<Rightarrow> 'v BinaryEncoder \<Rightarrow> ('v, 'x) world \<Rightarrow> ('v, 'x) world" where
  "go_Set ctx k val s = s\<lparr>goroutines := goroutines s @ [GoSet ctx k val]\<rparr>"

definition onCacheMiss ::
  "Context \<Rightarrow> key \<Rightarrow> 'v BinaryEncoder \<Rightarrow> ('v, 'x) BuilderFunc \<Rightarrow> ('v, 'x) world
     \<Rightarrow> error option \<times> ('v, 'x) world" where
  "onCacheMiss ctx k dest builder s =
     (case Build builder ctx k (heap s (data dest)) (ext s) of
        ((err, v'), x') \<Rightarrow>
          (let s1 = s\<lparr>heap := (heap s)(data dest := v'), ext := x',
                       trace := trace s @ [BuilderBuild ctx k (data dest)]\<rparr> in
           case err of
             Some e \<Rightarrow>
               (Some (LambdaError e),
                Track (getMetrics (client s1)) CacheLambdaError
                  (Log (getLogger (client s1))
                     ''cache miss build error. key: '%s' error: %s'' k e s1))
           | None \<Rightarrow>
               (None, go_Set Background k dest (AddInt64_pendingWrites 1 s1))))"

definition onCacheHit ::
  "Context \<Rightarrow> key \<Rightarrow> 'v BinaryEncoder \<Rightarrow> bytes \<Rightarrow> ('v, 'x) world
     \<Rightarrow> error option \<times> ('v, 'x) world" where
  "onCacheHit ctx k dest bs s =
     (case UnmarshalBinary dest bs (heap s (data dest)) of
        (err, v') \<Rightarrow>
          (let s1 = s\<lparr>heap := (heap s)(data dest := v')\<rparr> in
           case err of
             Some e \<Rightarrow>
               (let s2 = Track (getMetrics (client s1)) CacheUnmarshalError
                           (Log (getLogger (client s1))
                              ''cache hit unmarshal error. key: '%s' error: %s'' k e s1)
                in (Some e, snd (Invalidate ctx k s2)))
           | None \<Rightarrow> (None, Track (getMetrics (client s1)) CacheHit s1)))"

definition Get ::
  "Context \<Rightarrow> key \<Rightarrow> 'v BinaryEncoder \<Rightarrow> ('v, 'x) BuilderFunc \<Rightarrow> ('v, 'x) world
     \<Rightarrow> error option \<times> ('v, 'x) world" where
  "Get ctx k dest builder s =
     (case Storage_Get (Storage (client s)) ctx k (ext s) of
        ((bs, err), x') \<Rightarrow>
          (let s1 = s\<lparr>ext := x', trace := trace s @ [StorageGet ctx k]\<rparr> in
           case err of
             Some e \<Rightarrow>
               if e = ErrCacheMiss then
                 onCacheMiss ctx k dest builder (Track (getMetrics (client s1)) CacheMiss s1)
               else
                 (Some e,
                  Track (getMetrics (client s1)) CacheGetError
                    (Log (getLogger (client s1)) ''cache get error. key: '%s' error: %s'' k e s1))
           | None \<Rightarrow> onCacheHit ctx k dest bs s1))"

section \<open>Running goroutines and repeated calls\<close>

text \<open>The scheduler runs the oldest goroutine that has not run yet, to completion.\<close>

definition run_goroutine :: "('v, 'x) world \<Rightarrow> ('v, 'x) world" where
  "run_goroutine s =
     (case goroutines s of
        [] \<Rightarrow> s
      | GoSet ctx k val # gs \<Rightarrow> Set ctx k val (s\<lparr>goroutines := gs\<rparr>))"

text \<open>A user calling \<^verbatim>\<open>Set\<close> directly, once per element of the list, in order.\<close>

fun direct_Sets ::
  "(Context \<times> key \<times> 'v BinaryEncoder) list \<Rightarrow> ('v, 'x) world \<Rightarrow> ('v, 'x) world" where
  "direct_Sets [] s = s"
| "direct_Sets ((ctx, k, val) # cs) s = direct_Sets cs (Set ctx k val s)"

section \<open>Observations on the trace\<close>

text \<open>The calls made between a state and a later one.\<close>

definition calls_during :: "('v, 'x) world \<Rightarrow> ('v, 'x) world \<Rightarrow> call list" where
  "calls_during s s' = drop (length (trace s)) (trace s')"

text \<open>The metric events tracked by a list of calls, in order.\<close>

definition tracked :: "call list \<Rightarrow> Event list" where
  "tracked cs = concat (map (\<lambda>c. case c of Tracked m ev \<Rightarrow> [ev] | _ \<Rightarrow> []) cs)"

text \<open>The five events of the read path: hit, miss, get-error, build-error, unmarshal-error.\<close>

definition Get_event :: "Event \<Rightarrow> bool" where
  "Get_event ev =
     (ev = CacheHit \<or> ev = CacheMiss \<or> ev = CacheGetError \<or> ev = CacheLambdaError
      \<or> ev = CacheUnmarshalError)"

definition storage_set_calls :: "call list \<Rightarrow> call list" where
  "storage_set_calls cs = filter is_StorageSet cs"

definition invalidate_calls :: "call list \<Rightarrow> call list" where
  "invalidate_calls cs = filter is_StorageInvalidate cs"

definition build_calls :: "call list \<Rightarrow> call list" where
  "build_calls cs = filter is_BuilderBuild cs"

text \<open>
  The path of \<^verbatim>\<open>Get\<close> on which storage signals the miss and the builder then returns
  an error, and the one on which the builder returns nil.
\<close>

definition build_failed ::
  "Context \<Rightarrow> key \<Rightarrow> 'v BinaryEncoder \<Rightarrow> ('v, 'x) BuilderFunc \<Rightarrow> ('v, 'x) world \<Rightarrow> bool" where
  "build_failed ctx k dest builder s =
     (case Storage_Get (Storage (client s)) ctx k (ext s) of
        ((bs, err), x') \<Rightarrow>
          err = Some ErrCacheMiss
          \<and> fst (fst (Build builder ctx k (heap s (data dest)) x')) \<noteq> None)"

definition build_succeeded ::
  "Context \<Rightarrow> key \<Rightarrow> 'v BinaryEncoder \<Rightarrow> ('v, 'x) BuilderFunc \<Rightarrow> ('v, 'x) world \<Rightarrow> bool" where
  "build_succeeded ctx k dest builder s =
     (case Storage_Get (Storage (client s)) ctx k (ext s) of
        ((bs, err), x') \<Rightarrow>
          err = Some ErrCacheMiss
          \<and> fst (fst (Build builder ctx k (heap s (data dest)) x')) = None)"

section \<open>Example collaborators\<close>

text \<open>An in-memory backend: the outside world is an association list from keys to payloads.\<close>

definition memStorage :: "((key \<times> bytes) list) Storage" where
  "memStorage =
     \<lparr>Storage_Get = (\<lambda>ctx k x. case map_of x k of
                                  Some b \<Rightarrow> ((b, None), x)
                                | None \<Rightarrow> (([], Some ErrCacheMiss), x)),
      Storage_Set = (\<lambda>ctx k b x. (None, (k, b) # x)),
      Storage_Invalidate = (\<lambda>ctx k x. (None, filter (\<lambda>p. fst p \<noteq> k) x))\<rparr>"

text \<open>The in-memory backend with an invalidation that always fails.\<close>

definition stickyStorage :: "((key \<times> bytes) list) Storage" where
  "stickyStorage =
     memStorage\<lparr>Storage_Invalidate := (\<lambda>ctx k x. (Some (OtherError ''cannot invalidate''), x))\<rparr>"

text \<open>A backend on which every operation times out.\<close>

definition brokenStorage :: "((key \<times> bytes) list) Storage" where
  "brokenStorage =
     \<lparr>Storage_Get = (\<lambda>ctx k x. (([], Some (OtherError ''timeout'')), x)),
      Storage_Set = (\<lambda>ctx k b x. (Some (OtherError ''timeout''), x)),
      Storage_Invalidate = (\<lambda>ctx k x. (Some (OtherError ''timeout''), x))\<rparr>"

text \<open>
  A value that is its own payload: it marshals to itself and unmarshals from any non-empty
  payload. The second one cannot be marshalled.
\<close>

definition rawValue :: "ref \<Rightarrow> bytes BinaryEncoder" where
  "rawValue r =
     \<lparr>MarshalBinary = (\<lambda>v. (v, None)),
      UnmarshalBinary = (\<lambda>bs v. if bs = [] then (Some (OtherError ''empty payload''), v)
                                 else (None, bs)),
      data = r\<rparr>"

definition opaqueValue :: "ref \<Rightarrow> bytes BinaryEncoder" where
  "opaqueValue r = (rawValue r)\<lparr>MarshalBinary := (\<lambda>v. ([], Some (OtherError ''not encodable'')))\<rparr>"

definition annBuilder :: "(bytes, 'x) BuilderFunc" where
  "annBuilder = (\<lambda>ctx k v x. ((None, [42, 65, 110, 110]), x))"

definition failingBuilder :: "(bytes, 'x) BuilderFunc" where
  "failingBuilder = (\<lambda>ctx k v x. ((Some (OtherError ''db unreachable''), v), x))"

text \<open>A freshly constructed client on a backend, and a world that holds only it.\<close>

definition newClient :: "'x Storage \<Rightarrow> 'x Client" where
  "newClient st =
     \<lparr>Storage = st, Logger = None, Metrics = None, WriteTimeout = 0, pendingWrites = 0\<rparr>"

definition newWorld :: "'x Storage \<Rightarrow> 'x \<Rightarrow> (bytes, 'x) world" where
  "newWorld st x =
     \<lparr>client = newClient st, heap = (\<lambda>r. []), ext = x, trace = [], goroutines = [], now = 0\<rparr>"

text \<open>A caller's context that expires one second from time 0 and is ended by signal 7.\<close>

definition callerCtx :: Context where
  "callerCtx = \<lparr>deadline = Some 1000000000, cancelSignals = [7]\<rparr>"

section \<open>Basic facts about the state\<close>

lemma Track_fields [simp]:
  "client (Track m ev s) = client s" "heap (Track m ev s) = heap s" "ext (Track m ev s) = ext s"
  "trace (Track m ev s) = trace s @ [Tracked m ev]" "goroutines (Track m ev s) = goroutines s"
  "now (Track m ev s) = now s"
  by (simp_all add: Track_def)

lemma Log_fields [simp]:
  "client (Log l f k e s) = client s" "heap (Log l f k e s) = heap s" "ext (Log l f k e s) = ext s"
  "trace (Log l f k e s) = trace s @ [Logged l f k e]" "goroutines (Log l f k e s) = goroutines s"
  "now (Log l f k e s) = now s"
  by (simp_all add: Log_def)

lemma AddInt64_fields [simp]:
  "pendingWrites (client (AddInt64_pendingWrites d s)) = pendingWrites (client s) + d"
  "Storage (client (AddInt64_pendingWrites d s)) = Storage (client s)"
  "getMetrics (client (AddInt64_pendingWrites d s)) = getMetrics (client s)"
  "getLogger (client (AddInt64_pendingWrites d s)) = getLogger (client s)"
  "getWriteTimeout (client (AddInt64_pendingWrites d s)) = getWriteTimeout (client s)"
  "heap (AddInt64_pendingWrites d s) = heap s" "ext (AddInt64_pendingWrites d s) = ext s"
  "trace (AddInt64_pendingWrites d s) = trace s"
  "goroutines (AddInt64_pendingWrites d s) = goroutines s"
  "now (AddInt64_pendingWrites d s) = now s"
  by (simp_all add: AddInt64_pendingWrites_def getMetrics_def getLogger_def getWriteTimeout_def)

lemma go_Set_fields [simp]:
  "client (go_Set ctx k val s) = client s" "heap (go_Set ctx k val s) = heap s"
  "ext (go_Set ctx k val s) = ext s" "trace (go_Set ctx k val s) = trace s"
  "goroutines (go_Set ctx k val s) = goroutines s @ [GoSet ctx k val]"
  "now (go_Set ctx k val s) = now s"
  by (simp_all add: go_Set_def)

lemma calls_during_append [simp]: "trace s' = trace s @ cs \<Longrightarrow> calls_during s s' = cs"
  by (simp add: calls_during_def)

lemma tracked_simps [simp]:
  "tracked [] = []"
  "tracked (Tracked m ev # cs) = ev # tracked cs"
  "tracked (StorageGet ctx k # cs) = tracked cs"
  "tracked (StorageSet ctx k bs # cs) = tracked cs"
  "tracked (StorageInvalidate ctx k # cs) = tracked cs"
  "tracked (BuilderBuild ctx k r # cs) = tracked cs"
  "tracked (Logged l f k e # cs) = tracked cs"
  by (simp_all add: tracked_def)

lemmas Get_defs = Get_def onCacheMiss_def onCacheHit_def Invalidate_def Build_def Let_def

lemmas obs_defs = invalidate_calls_def build_calls_def storage_set_calls_def Get_event_def

lemmas ex_defs = newWorld_def newClient_def memStorage_def stickyStorage_def brokenStorage_def
  rawValue_def opaqueValue_def annBuilder_def failingBuilder_def Build_def callerCtx_def

text \<open>The metric events of one \<^verbatim>\<open>Get\<close>, path by path.\<close>

lemma Get_tracked:
  "tracked (calls_during s (snd (Get ctx k dest builder s))) =
     (case Storage_Get (Storage (client s)) ctx k (ext s) of
        ((bs, None), x') \<Rightarrow>
          (case UnmarshalBinary dest bs (heap s (data dest)) of
             (None, v) \<Rightarrow> [CacheHit]
           | (Some e, v) \<Rightarrow>
               CacheUnmarshalError #
                 (case fst (Storage_Invalidate (Storage (client s)) ctx k x') of
                    None \<Rightarrow> [] | Some e' \<Rightarrow> [CacheInvalidateError]))
      | ((bs, Some e), x') \<Rightarrow>
          if e = ErrCacheMiss then
            (case fst (fst (Build builder ctx k (heap s (data dest)) x')) of
               None \<Rightarrow> [CacheMiss] | Some e' \<Rightarrow> [CacheMiss, CacheLambdaError])
          else [CacheGetError])"
proof -
  obtain bs err x' where g: "Storage_Get (Storage (client s)) ctx k (ext s) = ((bs, err), x')"
    by (metis prod.exhaust)
  show ?thesis
  proof (cases err)
    case None
    obtain uerr v where u: "UnmarshalBinary dest bs (heap s (data dest)) = (uerr, v)"
      by (metis prod.exhaust)
    obtain ierr x'' where i: "Storage_Invalidate (Storage (client s)) ctx k x' = (ierr, x'')"
      by (metis prod.exhaust)
    from g None u i show ?thesis
      by (cases uerr; cases ierr) (simp_all add: Get_defs)
  next
    case (Some e)
    obtain berr v x'' where b: "Build builder ctx k (heap s (data dest)) x' = ((berr, v), x'')"
      by (metis prod.exhaust)
    from g Some b show ?thesis
      by (cases berr) (simp_all add: Get_defs)
  qed
qed

section \<open>Properties of Get\<close>

text \<open>
  C1, as the code has it: the metric events a call to \<^verbatim>\<open>Get\<close> tracks from the set
  {hit, miss, storage-get-error, build-error, unmarshal-error} are exactly one of hit, miss,
  storage-get-error or unmarshal-error on every path but one; when storage signals the miss
  and the builder then fails, they are two, the miss followed by the build-error. (Tracking
  is counted at the sink \<^verbatim>\<open>getMetrics\<close> resolves to.)
\<close>

theorem Get_metric_events:
  "(let evs = filter Get_event (tracked (calls_during s (snd (Get ctx k dest builder s)))) in
      if build_failed ctx k dest builder s then evs = [CacheMiss, CacheLambdaError]
      else evs \<in> {[CacheHit], [CacheMiss], [CacheGetError], [CacheUnmarshalError]})"
proof -
  obtain bs err x' where g: "Storage_Get (Storage (client s)) ctx k (ext s) = ((bs, err), x')"
    by (metis prod.exhaust)
  obtain uerr v where u: "UnmarshalBinary dest bs (heap s (data dest)) = (uerr, v)"
    by (metis prod.exhaust)
  from g u show ?thesis
    by (cases err; cases uerr;
        cases "fst (Storage_Invalidate (Storage (client s)) ctx k x')";
        cases "fst (fst (Build builder ctx k (heap s (data dest)) x'))")
      (simp_all add: Get_tracked build_failed_def Get_event_def)
qed

theorem Get_metric_events_witness:
  "\<not> build_failed Background ''user:42'' (rawValue 0) failingBuilder
        (newWorld memStorage [(''user:42'', [42, 65])])
   \<and> filter Get_event (tracked (calls_during (newWorld memStorage [(''user:42'', [42, 65])])
         (snd (Get Background ''user:42'' (rawValue 0) failingBuilder
                (newWorld memStorage [(''user:42'', [42, 65])])))))
       \<in> {[CacheHit], [CacheMiss], [CacheGetError], [CacheUnmarshalError]}
   \<and> build_failed Background ''user:7'' (rawValue 0) failingBuilder (newWorld memStorage [])
   \<and> filter Get_event (tracked (calls_during (newWorld memStorage [])
         (snd (Get Background ''user:7'' (rawValue 0) failingBuilder (newWorld memStorage [])))))
       = [CacheMiss, CacheLambdaError]"
proof -
  have h: "\<not> build_failed Background ''user:42'' (rawValue 0) failingBuilder
        (newWorld memStorage [(''user:42'', [42, 65])])"
    by (simp add: build_failed_def ex_defs)
  have f: "build_failed Background ''user:7'' (rawValue 0) failingBuilder (newWorld memStorage [])"
    by (simp add: build_failed_def ex_defs)
  from h f
    Get_metric_events [of "newWorld memStorage [(''user:42'', [42, 65])]" Background "''user:42''"
      "rawValue 0" failingBuilder]
    Get_metric_events [of "newWorld memStorage []" Background "''user:7''" "rawValue 0"
      failingBuilder]
  show ?thesis
    by (simp only: Let_def if_True if_False simp_thms)
qed

text \<open>
  C1 as stated fails: on an empty in-memory backend with a builder that returns
  "db unreachable", one \<^verbatim>\<open>Get\<close> tracks two events of the set, not one.
\<close>

theorem Get_metric_events_counterexample:
  "filter Get_event (tracked (calls_during (newWorld memStorage [])
       (snd (Get Background ''user:7'' (rawValue 0) failingBuilder (newWorld memStorage [])))))
     = [CacheMiss, CacheLambdaError]
   \<and> length (filter Get_event (tracked (calls_during (newWorld memStorage [])
       (snd (Get Background ''user:7'' (rawValue 0) failingBuilder (newWorld memStorage []))))))
     \<noteq> 1"
proof -
  have "tracked (calls_during (newWorld memStorage [])
          (snd (Get Background ''user:7'' (rawValue 0) failingBuilder (newWorld memStorage []))))
        = [CacheMiss, CacheLambdaError]"
    by (subst Get_tracked) (simp add: ex_defs)
  then show ?thesis
    by (simp add: Get_event_def)
qed

text \<open>
  C7: when \<^verbatim>\<open>Storage.Get(k)\<close> returns bytes with a nil error and unmarshalling them into
  \<open>dest\<close> succeeds, \<^verbatim>\<open>Get\<close> returns nil, \<open>dest\<close> holds the decoded value, the only metric
  event tracked is one hit, and the builder is not called.
\<close>

theorem Get_hit:
  assumes "Storage_Get (Storage (client s)) ctx k (ext s) = ((bs, None), x')"
    and "UnmarshalBinary dest bs (heap s (data dest)) = (None, v)"
  shows "fst (Get ctx k dest builder s) = None
    \<and> heap (snd (Get ctx k dest builder s)) (data dest) = v
    \<and> tracked (calls_during s (snd (Get ctx k dest builder s))) = [CacheHit]
    \<and> build_calls (calls_during s (snd (Get ctx k dest builder s))) = []"
  using assms by (simp add: Get_defs obs_defs)

theorem Get_hit_witness:
  "fst (Get Background ''user:42'' (rawValue 0) failingBuilder
          (newWorld memStorage [(''user:42'', [42, 65])])) = None
   \<and> heap (snd (Get Background ''user:42'' (rawValue 0) failingBuilder
          (newWorld memStorage [(''user:42'', [42, 65])]))) 0 = [42, 65]
   \<and> tracked (trace (snd (Get Background ''user:42'' (rawValue 0) failingBuilder
          (newWorld memStorage [(''user:42'', [42, 65])])))) = [CacheHit]
   \<and> build_calls (trace (snd (Get Background ''user:42'' (rawValue 0) failingBuilder
          (newWorld memStorage [(''user:42'', [42, 65])])))) = []"
proof -
  let ?s = "newWorld memStorage [(''user:42'', [42, 65])]"
  have g: "Storage_Get (Storage (client ?s)) Background ''user:42'' (ext ?s)
             = (([42, 65], None), [(''user:42'', [42, 65])])"
    by (simp add: ex_defs)
  have u: "UnmarshalBinary (rawValue 0) [42, 65] (heap ?s (data (rawValue 0))) = (None, [42, 65])"
    by (simp add: ex_defs)
  have t: "trace ?s = []" "data (rawValue 0) = 0"
    by (simp_all add: ex_defs)
  from Get_hit [OF g u, of failingBuilder] show ?thesis
    by (simp add: calls_during_def t)
qed

text \<open>
  C6: when \<^verbatim>\<open>Storage.Get(k)\<close> returns bytes and unmarshalling them into \<open>dest\<close> fails with
  \<open>e\<close>, \<^verbatim>\<open>Get\<close> returns \<open>e\<close> itself and calls \<^verbatim>\<open>Storage.Invalidate(k)\<close> exactly once; the
  returned error is the same whatever the backend's invalidation does (\<open>inval\<close> is any
  behaviour put in its place).
\<close>

theorem Get_decode_error:
  assumes "Storage_Get (Storage (client s)) ctx k (ext s) = ((bs, None), x')"
    and "UnmarshalBinary dest bs (heap s (data dest)) = (Some e, v)"
  shows "fst (Get ctx k dest builder s) = Some e
    \<and> invalidate_calls (calls_during s (snd (Get ctx k dest builder s))) = [StorageInvalidate ctx k]
    \<and> fst (Get ctx k dest builder
         (s\<lparr>client := (client s)\<lparr>Storage := (Storage (client s))\<lparr>Storage_Invalidate := inval\<rparr>\<rparr>\<rparr>))
        = Some e"
  using assms by (simp add: Get_defs obs_defs split: prod.splits option.splits)

theorem Get_decode_error_witness:
  "fst (Get Background ''user:42'' (rawValue 0) annBuilder
          (newWorld memStorage [(''user:42'', [])])) = Some (OtherError ''empty payload'')
   \<and> invalidate_calls (trace (snd (Get Background ''user:42'' (rawValue 0) annBuilder
          (newWorld memStorage [(''user:42'', [])])))) = [StorageInvalidate Background ''user:42'']
   \<and> fst (Get Background ''user:42'' (rawValue 0) annBuilder
          (newWorld stickyStorage [(''user:42'', [])])) = Some (OtherError ''empty payload'')"
proof -
  let ?s = "newWorld memStorage [(''user:42'', [])]"
  have g: "Storage_Get (Storage (client ?s)) Background ''user:42'' (ext ?s)
             = (([], None), [(''user:42'', [])])"
    by (simp add: ex_defs)
  have u: "UnmarshalBinary (rawValue 0) [] (heap ?s (data (rawValue 0)))
             = (Some (OtherError ''empty payload''), [])"
    by (simp add: ex_defs)
  have t: "trace ?s = []"
    by (simp add: ex_defs)
  have r: "?s\<lparr>client := (client ?s)\<lparr>Storage := (Storage (client ?s))
              \<lparr>Storage_Invalidate := Storage_Invalidate stickyStorage\<rparr>\<rparr>\<rparr>
           = newWorld stickyStorage [(''user:42'', [])]"
    by (simp add: ex_defs)
  from Get_decode_error [OF g u, of annBuilder "Storage_Invalidate stickyStorage"]
  show ?thesis
    by (simp add: calls_during_def t r)
qed

text \<open>
  C4: when \<^verbatim>\<open>Storage.Get(k)\<close> fails with an error \<open>e\<close> other than the miss signal, \<^verbatim>\<open>Get\<close>
  returns \<open>e\<close> itself, not wrapped; the builder is not called, \<^verbatim>\<open>Storage.Set\<close> is not
  called and no write is started.
\<close>

theorem Get_storage_error:
  assumes "Storage_Get (Storage (client s)) ctx k (ext s) = ((bs, Some e), x')"
    and "e \<noteq> ErrCacheMiss"
  shows "fst (Get ctx k dest builder s) = Some e
    \<and> build_calls (calls_during s (snd (Get ctx k dest builder s))) = []
    \<and> storage_set_calls (calls_during s (snd (Get ctx k dest builder s))) = []
    \<and> goroutines (snd (Get ctx k dest builder s)) = goroutines s"
  using assms by (simp add: Get_defs obs_defs)

theorem Get_storage_error_witness:
  "fst (Get Background ''user:9'' (rawValue 0) annBuilder (newWorld brokenStorage []))
     = Some (OtherError ''timeout'')
   \<and> build_calls (trace (snd (Get Background ''user:9'' (rawValue 0) annBuilder
        (newWorld brokenStorage [])))) = []
   \<and> storage_set_calls (trace (snd (Get Background ''user:9'' (rawValue 0) annBuilder
        (newWorld brokenStorage [])))) = []
   \<and> goroutines (snd (Get Background ''user:9'' (rawValue 0) annBuilder
        (newWorld brokenStorage []))) = []"
proof -
  let ?s = "newWorld brokenStorage []"
  have g: "Storage_Get (Storage (client ?s)) Background ''user:9'' (ext ?s)
             = (([], Some (OtherError ''timeout'')), [])"
    by (simp add: ex_defs)
  have n: "OtherError ''timeout'' \<noteq> ErrCacheMiss"
    by simp
  have t: "trace ?s = []" "goroutines ?s = []"
    by (simp_all add: ex_defs)
  from Get_storage_error [OF g n, of "rawValue 0" annBuilder] show ?thesis
    by (simp add: calls_during_def t)
qed

text \<open>
  C5: when \<^verbatim>\<open>Storage.Get(k)\<close> signals the miss and the builder fails with cause \<open>E\<close>,
  \<^verbatim>\<open>Get\<close> returns the build-specific wrapper \<open>LambdaError\<close> whose \<open>Cause\<close> is \<open>E\<close>; the
  wrapper is neither \<open>E\<close> itself nor the miss signal, so it is told apart from an error the
  storage returned. \<^verbatim>\<open>Storage.Set\<close> is not called and no write is started.
\<close>

theorem Get_build_error:
  assumes "Storage_Get (Storage (client s)) ctx k (ext s) = ((bs, Some ErrCacheMiss), x')"
    and "Build builder ctx k (heap s (data dest)) x' = ((Some E, v), x'')"
  shows "fst (Get ctx k dest builder s) = Some (LambdaError E)
    \<and> is_LambdaError (the (fst (Get ctx k dest builder s)))
    \<and> Cause (the (fst (Get ctx k dest builder s))) = E
    \<and> the (fst (Get ctx k dest builder s)) \<noteq> E
    \<and> the (fst (Get ctx k dest builder s)) \<noteq> ErrCacheMiss
    \<and> storage_set_calls (calls_during s (snd (Get ctx k dest builder s))) = []
    \<and> goroutines (snd (Get ctx k dest builder s)) = goroutines s"
  using assms by (simp add: Get_defs obs_defs)

theorem Get_build_error_witness:
  "fst (Get Background ''user:7'' (rawValue 0) failingBuilder (newWorld memStorage []))
     = Some (LambdaError (OtherError ''db unreachable''))
   \<and> storage_set_calls (trace (snd (Get Background ''user:7'' (rawValue 0) failingBuilder
        (newWorld memStorage [])))) = []
   \<and> goroutines (snd (Get Background ''user:7'' (rawValue 0) failingBuilder
        (newWorld memStorage []))) = []"
proof -
  let ?s = "newWorld memStorage []"
  have g: "Storage_Get (Storage (client ?s)) Background ''user:7'' (ext ?s)
             = (([], Some ErrCacheMiss), [])"
    by (simp add: ex_defs)
  have b: "Build failingBuilder Background ''user:7'' (heap ?s (data (rawValue 0))) []
             = ((Some (OtherError ''db unreachable''), []), [])"
    by (simp add: ex_defs)
  have t: "trace ?s = []" "goroutines ?s = []"
    by (simp_all add: ex_defs)
  from Get_build_error [OF g b] show ?thesis
    by (simp add: calls_during_def t)
qed

section \<open>Properties of Set and of the pending-write counter\<close>

lemmas Set_defs = Set_def Set_body_def Let_def

text \<open>The full effect of Set on the trace and the counter, path by path.\<close>

lemma Set_trace:
  "trace (Set ctx k val s) = trace s @
     (case MarshalBinary val (heap s (data val)) of
        (bs, Some e) \<Rightarrow>
          [Logged (getLogger (client s)) ''cache update marshal error. key: '%s' error: %s'' k e,
           Tracked (getMetrics (client s)) CacheMarshalError]
      | (bs, None) \<Rightarrow>
          StorageSet (WithTimeout ctx (getWriteTimeout (client s)) (now s)) k bs #
            (case fst (Storage_Set (Storage (client s))
                        (WithTimeout ctx (getWriteTimeout (client s)) (now s)) k bs (ext s)) of
               Some e \<Rightarrow>
                 [Logged (getLogger (client s)) ''cache update set error. key: '%s' error: %s'' k e,
                  Tracked (getMetrics (client s)) CacheSetError]
             | None \<Rightarrow> []))"
proof -
  obtain bs merr where m: "MarshalBinary val (heap s (data val)) = (bs, merr)"
    by (metis prod.exhaust)
  obtain serr x' where w: "Storage_Set (Storage (client s))
      (WithTimeout ctx (getWriteTimeout (client s)) (now s)) k bs (ext s) = (serr, x')"
    by (metis prod.exhaust)
  from m w show ?thesis
    by (cases merr; cases serr) (simp_all add: Set_defs)
qed

lemma Set_pendingWrites:
  "pendingWrites (client (Set ctx k val s)) = pendingWrites (client s) - 1"
proof -
  have "client (Set_body ctx k val s) = client s"
    by (simp add: Set_body_def Let_def split: prod.split option.split)
  then show ?thesis
    by (simp add: Set_def)
qed

lemma Set_frame:
  "heap (Set ctx k val s) = heap s" "goroutines (Set ctx k val s) = goroutines s"
  "now (Set ctx k val s) = now s"
  "Storage (client (Set ctx k val s)) = Storage (client s)"
  "getWriteTimeout (client (Set ctx k val s)) = getWriteTimeout (client s)"
  by (simp_all add: Set_defs split: prod.split option.split)

text \<open>
  C8: every call to \<^verbatim>\<open>Set\<close> leaves the pending-write counter exactly one lower, whatever
  path it takes. When marshalling fails, \<^verbatim>\<open>Storage.Set\<close> is not called and a marshal-error
  is tracked; when it succeeds, \<^verbatim>\<open>Storage.Set\<close> is called once with the marshalled bytes,
  and a set-error is tracked exactly when that write fails.
\<close>

theorem Set_decrements_once:
  "pendingWrites (client (Set ctx k val s)) = pendingWrites (client s) - 1
   \<and> (case MarshalBinary val (heap s (data val)) of
        (bs, Some e) \<Rightarrow>
          storage_set_calls (calls_during s (Set ctx k val s)) = []
          \<and> tracked (calls_during s (Set ctx k val s)) = [CacheMarshalError]
      | (bs, None) \<Rightarrow>
          storage_set_calls (calls_during s (Set ctx k val s))
            = [StorageSet (WithTimeout ctx (getWriteTimeout (client s)) (now s)) k bs]
          \<and> tracked (calls_during s (Set ctx k val s))
            = (case fst (Storage_Set (Storage (client s))
                          (WithTimeout ctx (getWriteTimeout (client s)) (now s)) k bs (ext s)) of
                 Some e \<Rightarrow> [CacheSetError] | None \<Rightarrow> []))"
proof -
  obtain bs merr where m: "MarshalBinary val (heap s (data val)) = (bs, merr)"
    by (metis prod.exhaust)
  from m show ?thesis
    by (cases merr;
        cases "fst (Storage_Set (Storage (client s))
                 (WithTimeout ctx (getWriteTimeout (client s)) (now s)) k bs (ext s))")
       (simp_all add: Set_pendingWrites Set_trace storage_set_calls_def)
qed

theorem Set_decrements_once_witness:
  "pendingWrites (client (Set Background ''user:42'' (rawValue 0) (newWorld memStorage []))) = - 1
   \<and> pendingWrites (client (Set callerCtx ''user:42'' (opaqueValue 0) (newWorld memStorage [])))
       = - 1
   \<and> storage_set_calls (calls_during (newWorld memStorage [])
        (Set callerCtx ''user:42'' (opaqueValue 0) (newWorld memStorage []))) = []
   \<and> pendingWrites (client (Set Background ''user:42'' (rawValue 0) (newWorld brokenStorage [])))
       = - 1
   \<and> tracked (calls_during (newWorld brokenStorage [])
        (Set Background ''user:42'' (rawValue 0) (newWorld brokenStorage []))) = [CacheSetError]"
proof -
  have z: "pendingWrites (client (newWorld memStorage [])) = 0"
    "pendingWrites (client (newWorld brokenStorage [])) = 0"
    by (simp_all add: ex_defs)
  have m: "MarshalBinary (opaqueValue 0) (heap (newWorld memStorage []) (data (opaqueValue 0)))
             = ([], Some (OtherError ''not encodable''))"
    "MarshalBinary (rawValue 0) (heap (newWorld brokenStorage []) (data (rawValue 0)))
             = ([], None)"
    by (simp_all add: ex_defs)
  have w: "fst (Storage_Set (Storage (client (newWorld brokenStorage []))) ctx ''user:42'' []
             (ext (newWorld brokenStorage []))) = Some (OtherError ''timeout'')" for ctx
    by (simp add: ex_defs)
  from Set_decrements_once [of Background "''user:42''" "rawValue 0" "newWorld memStorage []"]
    Set_decrements_once [of callerCtx "''user:42''" "opaqueValue 0" "newWorld memStorage []"]
    Set_decrements_once [of Background "''user:42''" "rawValue 0" "newWorld brokenStorage []"]
  show ?thesis
    by (simp add: z m w)
qed

lemma Get_pendingWrites:
  "pendingWrites (client (snd (Get ctx k dest builder s)))
     = pendingWrites (client s) + (if build_succeeded ctx k dest builder s then 1 else 0)"
proof -
  obtain bs err x' where g: "Storage_Get (Storage (client s)) ctx k (ext s) = ((bs, err), x')"
    by (metis prod.exhaust)
  show ?thesis
  proof (cases err)
    case None
    obtain uerr v where u: "UnmarshalBinary dest bs (heap s (data dest)) = (uerr, v)"
      by (metis prod.exhaust)
    obtain ierr x'' where i: "Storage_Invalidate (Storage (client s)) ctx k x' = (ierr, x'')"
      by (metis prod.exhaust)
    from g None u i show ?thesis
      by (cases uerr; cases ierr) (simp_all add: Get_defs build_succeeded_def)
  next
    case (Some e)
    obtain berr v x'' where b: "Build builder ctx k (heap s (data dest)) x' = ((berr, v), x'')"
      by (metis prod.exhaust)
    from g Some b show ?thesis
      by (cases berr) (simp_all add: Get_defs build_succeeded_def)
  qed
qed

lemma direct_Sets_pendingWrites:
  "pendingWrites (client (direct_Sets cs s)) = pendingWrites (client s) - of_nat (length cs)"
proof (induction cs arbitrary: s)
  case Nil
  show ?case by simp
next
  case (Cons c cs)
  obtain ctx k val where c: "c = (ctx, k, val)"
    by (cases c) auto
  show ?case
    by (simp add: c Cons.IH Set_pendingWrites)
qed

lemma sint_neg_of_nat:
  assumes "n \<le> 2 ^ 63"
  shows "sint (- of_nat n :: 64 word) = - int n"
proof -
  have "sint (of_int (- int n) :: 64 word) = signed_take_bit 63 (- int n)"
    by (simp only: signed_of_int) simp
  also have "\<dots> = - int n"
    using assms by (intro signed_take_bit_int_eq_self) (auto simp: of_nat_le_iff [of n "2 ^ 63", symmetric] simp del: of_nat_le_iff)
  finally show ?thesis by simp
qed

text \<open>
  C9: \<^verbatim>\<open>Get\<close> raises the pending-write counter by one on the path where storage misses
  and the builder succeeds, and leaves it alone on every other path; \<^verbatim>\<open>Invalidate\<close> leaves
  it alone; \<^verbatim>\<open>Set\<close> always lowers it by one. So on a client whose counter is 0, a run of
  direct calls to \<^verbatim>\<open>Set\<close> (no goroutine is started, none is pending from a \<^verbatim>\<open>Get\<close>) ends
  with the counter at minus the number of calls: as a 64-bit value always, and read as a
  signed number for any number of calls up to \<open>2 ^ 63\<close>.
\<close>

theorem pendingWrites_unbalanced:
  "pendingWrites (client (snd (Get ctx k dest builder s)))
     = pendingWrites (client s) + (if build_succeeded ctx k dest builder s then 1 else 0)
   \<and> pendingWrites (client (snd (Invalidate ctx k s))) = pendingWrites (client s)
   \<and> pendingWrites (client (Set ctx k val s)) = pendingWrites (client s) - 1
   \<and> (pendingWrites (client s) = 0 \<longrightarrow>
        pendingWrites (client (direct_Sets cs s)) = - of_nat (length cs)
        \<and> goroutines (direct_Sets cs s) = goroutines s
        \<and> (length cs \<le> 2 ^ 63 \<longrightarrow>
             sint (pendingWrites (client (direct_Sets cs s))) = - int (length cs)))"
proof -
  have inv: "pendingWrites (client (snd (Invalidate ctx k s))) = pendingWrites (client s)"
    by (simp add: Invalidate_def Let_def split: prod.split option.split)
  have gs: "goroutines (direct_Sets cs s) = goroutines s"
    by (induction cs arbitrary: s) (auto simp: Set_frame)
  show ?thesis
    by (simp add: Get_pendingWrites Set_pendingWrites inv gs direct_Sets_pendingWrites
        sint_neg_of_nat)
qed

theorem pendingWrites_unbalanced_witness:
  "pendingWrites (client (direct_Sets
       [(Background, ''a'', rawValue 0), (callerCtx, ''b'', opaqueValue 1),
        (Background, ''c'', rawValue 2)] (newWorld brokenStorage []))) = - 3
   \<and> sint (pendingWrites (client (direct_Sets
       [(Background, ''a'', rawValue 0), (callerCtx, ''b'', opaqueValue 1),
        (Background, ''c'', rawValue 2)] (newWorld brokenStorage [])))) = - 3"
proof -
  let ?s = "newWorld brokenStorage []"
  let ?cs = "[(Background, ''a'', rawValue 0), (callerCtx, ''b'', opaqueValue 1),
             (Background, ''c'', rawValue 2)]"
  have z: "pendingWrites (client ?s) = 0"
    by (simp add: ex_defs)
  have n: "length ?cs \<le> 2 ^ 63" "length ?cs = 3"
    by simp_all
  from pendingWrites_unbalanced [where s = ?s and cs = ?cs and ctx = Background and k = "''a''"
      and dest = "rawValue 0" and builder = annBuilder and val = "rawValue 0"] z n
  show ?thesis
    by simp
qed

section \<open>The write started by a miss, and its context\<close>

lemma WithTimeout_Background:
  "WithTimeout Background tmo t = \<lparr>deadline = Some (t + sint tmo), cancelSignals = []\<rparr>"
  by (simp add: WithTimeout_def WithDeadline_def Background_def)

lemma WithTimeout_cancelSignals:
  "cancelSignals (WithTimeout parent tmo t) = cancelSignals parent"
  by (simp add: WithTimeout_def WithDeadline_def split: option.split)

lemma WithTimeout_deadline:
  "deadline (WithTimeout parent tmo t) =
     (case deadline parent of
        None \<Rightarrow> Some (t + sint tmo)
      | Some cur \<Rightarrow> Some (min cur (t + sint tmo)))"
  by (simp add: WithTimeout_def WithDeadline_def min_def split: option.split)

lemma getWriteTimeout_positive: "0 < sint (getWriteTimeout c)"
  by (simp add: getWriteTimeout_def Second_def)

text \<open>
  The context \<^verbatim>\<open>Set\<close> hands to \<^verbatim>\<open>Storage.Set\<close> always expires, and no later than the write
  timeout after the call; it is ended by exactly the signals that end the context
  \<^verbatim>\<open>Set\<close> was called with.
\<close>

lemma Set_write_context:
  "\<exists>d. deadline (WithTimeout ctx (getWriteTimeout c) t) = Some d
        \<and> d \<le> t + sint (getWriteTimeout c)"
  by (simp add: WithTimeout_deadline split: option.split)

lemma Get_miss_built_state:
  assumes "Storage_Get (Storage (client s)) ctx k (ext s) = ((bs, Some ErrCacheMiss), x')"
    and "Build builder ctx k (heap s (data dest)) x' = ((None, v), x'')"
  shows "Get ctx k dest builder s =
     (None, s\<lparr>client := (client s)\<lparr>pendingWrites := pendingWrites (client s) + 1\<rparr>,
               heap := (heap s)(data dest := v), ext := x'',
               trace := trace s @ [StorageGet ctx k, Tracked (getMetrics (client s)) CacheMiss,
                                   BuilderBuild ctx k (data dest)],
               goroutines := goroutines s @ [GoSet Background k dest]\<rparr>)"
  using assms
  by (simp add: Get_defs go_Set_def AddInt64_pendingWrites_def Track_def getMetrics_def)

lemma Set_storage_set_calls:
  "storage_set_calls (calls_during s (Set ctx k val s)) =
     (case MarshalBinary val (heap s (data val)) of
        (bs, None) \<Rightarrow> [StorageSet (WithTimeout ctx (getWriteTimeout (client s)) (now s)) k bs]
      | (bs, Some e) \<Rightarrow> [])"
proof -
  obtain bs merr where m: "MarshalBinary val (heap s (data val)) = (bs, merr)"
    by (metis prod.exhaust)
  from m show ?thesis
    by (cases merr;
        cases "fst (Storage_Set (Storage (client s))
                 (WithTimeout ctx (getWriteTimeout (client s)) (now s)) k bs (ext s))")
       (simp_all add: Set_trace storage_set_calls_def)
qed

text \<open>
  C3, as the code has it: when \<^verbatim>\<open>Storage.Get(k)\<close> signals the miss and the builder succeeds,
  \<^verbatim>\<open>Get\<close> returns nil, \<open>dest\<close> holds the built value, the only metric event tracked is one
  miss, the pending-write counter is one higher, and exactly one goroutine is started,
  \<^verbatim>\<open>Set(context.Background(), k, dest)\<close>; \<^verbatim>\<open>Get\<close> itself does not call \<^verbatim>\<open>Storage.Set\<close>. That
  \<^verbatim>\<open>Set\<close>, run while \<open>dest\<close> still holds the built value, calls \<^verbatim>\<open>Storage.Set\<close> once, with
  \<open>k\<close>, the marshalled built value and a context that expires one write timeout later and
  has no cancellation signal, if marshalling the value succeeds; if marshalling fails it
  does not call \<^verbatim>\<open>Storage.Set\<close>.
\<close>

theorem Get_miss_built:
  assumes "Storage_Get (Storage (client s)) ctx k (ext s) = ((bs, Some ErrCacheMiss), x')"
    and "Build builder ctx k (heap s (data dest)) x' = ((None, v), x'')"
  shows "(let s' = snd (Get ctx k dest builder s) in
      fst (Get ctx k dest builder s) = None
    \<and> heap s' (data dest) = v
    \<and> tracked (calls_during s s') = [CacheMiss]
    \<and> pendingWrites (client s') = pendingWrites (client s) + 1
    \<and> goroutines s' = goroutines s @ [GoSet Background k dest]
    \<and> storage_set_calls (calls_during s s') = []
    \<and> storage_set_calls (calls_during s' (Set Background k dest s')) =
        (case MarshalBinary dest v of
           (bs', None) \<Rightarrow>
             [StorageSet \<lparr>deadline = Some (now s + sint (getWriteTimeout (client s))),
                          cancelSignals = []\<rparr> k bs']
         | (bs', Some e) \<Rightarrow> []))"
proof -
  let ?s' = "snd (Get ctx k dest builder s)"
  note st = Get_miss_built_state [OF assms]
  have 1: "fst (Get ctx k dest builder s) = None"
    by (simp add: st)
  have 2: "heap ?s' (data dest) = v" "now ?s' = now s"
    "getWriteTimeout (client ?s') = getWriteTimeout (client s)"
    by (simp_all add: st getWriteTimeout_def)
  have 3: "tracked (calls_during s ?s') = [CacheMiss]"
    "storage_set_calls (calls_during s ?s') = []"
    by (simp_all add: st storage_set_calls_def)
  have 4: "pendingWrites (client ?s') = pendingWrites (client s) + 1"
    "goroutines ?s' = goroutines s @ [GoSet Background k dest]"
    by (simp_all add: st)
  have 5: "storage_set_calls (calls_during ?s' (Set Background k dest ?s')) =
        (case MarshalBinary dest v of
           (bs', None) \<Rightarrow>
             [StorageSet \<lparr>deadline = Some (now s + sint (getWriteTimeout (client s))),
                          cancelSignals = []\<rparr> k bs']
         | (bs', Some e) \<Rightarrow> [])"
    by (simp only: Set_storage_set_calls 2 WithTimeout_Background)
  from 1 2 3 4 5 show ?thesis
    by (simp only: Let_def)
qed

theorem Get_miss_built_witness:
  "fst (Get callerCtx ''user:42'' (rawValue 0) annBuilder (newWorld memStorage [])) = None
   \<and> heap (snd (Get callerCtx ''user:42'' (rawValue 0) annBuilder (newWorld memStorage []))) 0
       = [42, 65, 110, 110]
   \<and> tracked (trace (snd (Get callerCtx ''user:42'' (rawValue 0) annBuilder
       (newWorld memStorage [])))) = [CacheMiss]
   \<and> pendingWrites (client (snd (Get callerCtx ''user:42'' (rawValue 0) annBuilder
       (newWorld memStorage [])))) = 1
   \<and> goroutines (snd (Get callerCtx ''user:42'' (rawValue 0) annBuilder (newWorld memStorage [])))
       = [GoSet Background ''user:42'' (rawValue 0)]
   \<and> storage_set_calls (calls_during
        (snd (Get callerCtx ''user:42'' (rawValue 0) annBuilder (newWorld memStorage [])))
        (Set Background ''user:42'' (rawValue 0)
          (snd (Get callerCtx ''user:42'' (rawValue 0) annBuilder (newWorld memStorage [])))))
       = [StorageSet \<lparr>deadline = Some 3000000000, cancelSignals = []\<rparr> ''user:42''
            [42, 65, 110, 110]]"
proof -
  let ?s = "newWorld memStorage []"
  have g: "Storage_Get (Storage (client ?s)) callerCtx ''user:42'' (ext ?s)
             = (([], Some ErrCacheMiss), [])"
    by (simp add: ex_defs)
  have b: "Build annBuilder callerCtx ''user:42'' (heap ?s (data (rawValue 0))) []
             = ((None, [42, 65, 110, 110]), [])"
    by (simp add: ex_defs)
  have t: "trace ?s = []" "goroutines ?s = []" "pendingWrites (client ?s) = 0" "now ?s = 0"
    "data (rawValue 0) = 0"
    "MarshalBinary (rawValue 0) [42, 65, 110, 110] = ([42, 65, 110, 110], None)"
    "sint (getWriteTimeout (client ?s)) = 3000000000"
    by (simp_all add: ex_defs getWriteTimeout_def Second_def)
  have c: "calls_during ?s s' = trace s'" for s' :: "(bytes, (key \<times> bytes) list) world"
    by (simp add: calls_during_def t)
  from Get_miss_built [OF g b] show ?thesis
    by (simp only: Let_def t c) simp
qed

text \<open>
  C3 as stated fails: with a value that cannot be marshalled, storage misses, the builder
  succeeds, \<^verbatim>\<open>Get\<close> returns nil and starts the write, the write runs to its end, and
  \<^verbatim>\<open>Storage.Set\<close> has not been called.
\<close>

theorem Get_miss_built_counterexample:
  "Storage_Get memStorage Background ''user:42'' [] = (([], Some ErrCacheMiss), [])
   \<and> Build annBuilder Background ''user:42'' [] [] = ((None, [42, 65, 110, 110]), [])
   \<and> fst (Get Background ''user:42'' (opaqueValue 0) annBuilder (newWorld memStorage [])) = None
   \<and> goroutines (snd (Get Background ''user:42'' (opaqueValue 0) annBuilder
        (newWorld memStorage []))) = [GoSet Background ''user:42'' (opaqueValue 0)]
   \<and> goroutines (run_goroutine (snd (Get Background ''user:42'' (opaqueValue 0) annBuilder
        (newWorld memStorage [])))) = []
   \<and> storage_set_calls (trace (run_goroutine (snd (Get Background ''user:42'' (opaqueValue 0)
        annBuilder (newWorld memStorage []))))) = []"
proof -
  have g: "Get Background ''user:42'' (opaqueValue 0) annBuilder (newWorld memStorage [])
     = (None, (newWorld memStorage [])
          \<lparr>client := (newClient memStorage)\<lparr>pendingWrites := 1\<rparr>,
           heap := (\<lambda>r. [])(0 := [42, 65, 110, 110]),
           trace := [StorageGet Background ''user:42'', Tracked noopMetrics CacheMiss,
                     BuilderBuild Background ''user:42'' 0],
           goroutines := [GoSet Background ''user:42'' (opaqueValue 0)]\<rparr>)"
    by (simp add: Get_def onCacheMiss_def Let_def ex_defs go_Set_def AddInt64_pendingWrites_def Track_def getMetrics_def)
  show ?thesis
    unfolding g
    by (simp add: run_goroutine_def Set_defs ex_defs storage_set_calls_def
        AddInt64_pendingWrites_def Track_def Log_def)
qed

text \<open>
  C2: \<^verbatim>\<open>Set\<close> derives the context of the storage write from the context it is called
  with. Called directly with a caller's context that expires after one second and is ended
  by signal 7, on a client with the default write timeout of 3 seconds, it hands
  \<^verbatim>\<open>Storage.Set\<close> a context that expires at the caller's deadline and is ended by the
  caller's signal; only a call with \<^verbatim>\<open>context.Background()\<close>, as the goroutine of \<^verbatim>\<open>Get\<close>
  makes, gets a context of its own that expires after 3 seconds.
\<close>

theorem Set_direct_inherits_caller_context:
  "storage_set_calls (trace (Set callerCtx ''user:42'' (rawValue 0) (newWorld memStorage [])))
     = [StorageSet \<lparr>deadline = Some 1000000000, cancelSignals = [7]\<rparr> ''user:42'' []]
   \<and> storage_set_calls (trace (Set Background ''user:42'' (rawValue 0) (newWorld memStorage [])))
     = [StorageSet \<lparr>deadline = Some 3000000000, cancelSignals = []\<rparr> ''user:42'' []]"
  by (simp add: Set_trace storage_set_calls_def ex_defs WithTimeout_def WithDeadline_def
      Background_def getWriteTimeout_def Second_def)


section \<open>The write timeout\<close>

text \<open>
  C10: the effective write timeout is the configured \<open>WriteTimeout\<close> when that is strictly
  positive (as a signed 64-bit number) and 3 seconds for every other configured value,
  negative ones included.
\<close>

theorem getWriteTimeout_effective:
  "getWriteTimeout c = (if 0 < sint (WriteTimeout c) then WriteTimeout c else 3000000000)"
  by (simp add: getWriteTimeout_def Second_def)

theorem getWriteTimeout_effective_witness:
  "getWriteTimeout ((newClient memStorage)\<lparr>WriteTimeout := 7\<rparr>) = 7
   \<and> getWriteTimeout (newClient memStorage) = 3000000000
   \<and> getWriteTimeout ((newClient memStorage)\<lparr>WriteTimeout := - 5\<rparr>) = 3000000000"
  using getWriteTimeout_effective [of "(newClient memStorage)\<lparr>WriteTimeout := 7\<rparr>"]
    getWriteTimeout_effective [of "newClient memStorage"]
    getWriteTimeout_effective [of "(newClient memStorage)\<lparr>WriteTimeout := - 5\<rparr>"]
  by (simp add: newClient_def)

end
